theory Spec2Isabelle
  imports Main "HOL-Library.Word" "HOL-Library.AList"
begin

section \<open>Go values as seen through reflection\<close>

text \<open>
  \<open>BuildUpdateSet\<close> (src/mongo/utils.go) takes an \<open>interface{}\<close> and walks it with package
  \<open>reflect\<close>. The model below gives the values that walk can meet. Pointers and maps are
  references into a store; a struct value carries, for each field, the descriptor that
  \<open>reflect.Type.Field\<close> reports (name and tag) next to the field's value, so that
  \<open>setType\<close> of the source is read off the same value as \<open>setValue\<close>. The two other
  calls on types raise no panic where the source makes them: \<open>reflect.TypeOf\<close> never does,
  and \<open>setType.Elem()\<close> is reached only when the kind is Ptr, where it is defined.

  Integer kinds of every width are collapsed into \<open>KInt\<close> and \<open>KUint\<close>, float and complex
  kinds into \<open>KFloat\<close> and \<open>KComplex\<close> (held as IEEE bit patterns): the code under study
  never tells the widths apart. Strings are byte strings, identifiers in UTF-8.
\<close>

type_synonym addr = nat

datatype kind =
    KInvalid | KBool | KInt | KUint | KFloat | KComplex | KArray | KChan | KFunc
  | KInterface | KMap | KPtr | KSlice | KString | KStruct | KUnsafePointer

datatype gvalue =
    VBool bool
  | VInt int
  | VUint nat
  | VFloat "64 word"
  | VComplex "64 word" "64 word"
  | VString string
  | VArray "gvalue list"
  | VSlice "gvalue list option"
  | VMap string "addr option"
  | VPtr "addr option"
  | VChan "addr option"
  | VFunc "addr option"
  | VUnsafePointer nat
  | VInterface "gvalue option"
  | VStruct "sfield list"
and sfield =
    SField (Name: string) (Tag: "(string \<times> string) list") (Val: gvalue)

text \<open>
  \<open>VSlice None\<close>, \<open>VMap t None\<close>, \<open>VPtr None\<close>, \<open>VChan None\<close>, \<open>VFunc None\<close> are the nil
  values of their types; \<open>VMap t (Some a)\<close> is a reference to the map object at \<open>a\<close>, of
  the defined map type named \<open>t\<close>. \<open>VInterface\<close> is a field or cell of interface type
  holding nil or a dynamic value. A struct tag is held as its key/value pairs, in order.

  An \<open>interface{}\<close> argument is \<open>None\<close> for the untyped nil and \<open>Some v\<close> otherwise.
\<close>

type_synonym iface = "gvalue option"

definition bson_M :: string where
  "bson_M = ''bson.M''"

datatype panic = Panic string

text \<open>
  The store: \<open>mem\<close> is what pointers point at (Go pointers never dangle, so every address
  holds a value), \<open>mapobj\<close> the contents of the map objects, \<open>nextmap\<close> the address of the
  next map object \<open>make\<close> or a map literal will allocate. A map object is an association
  list with one pair per key.
\<close>

record store =
  mem :: "addr \<Rightarrow> gvalue"
  mapobj :: "addr \<Rightarrow> (string \<times> iface) list"
  nextmap :: addr

definition make_map :: "store \<Rightarrow> addr \<times> store" where
  "make_map s = (nextmap s, s\<lparr>mapobj := (mapobj s)(nextmap s := []), nextmap := Suc (nextmap s)\<rparr>)"

definition map_assign :: "store \<Rightarrow> addr option \<Rightarrow> string \<Rightarrow> iface \<Rightarrow> panic + store" where
  "map_assign s m k v =
     (case m of
        None \<Rightarrow> Inl (Panic ''assignment to entry in nil map'')
      | Some a \<Rightarrow> Inr (s\<lparr>mapobj := (mapobj s)(a := AList.update k v (mapobj s a))\<rparr>))"

definition map_index :: "store \<Rightarrow> addr option \<Rightarrow> string \<Rightarrow> iface" where
  "map_index s m k =
     (case m of
        None \<Rightarrow> None
      | Some a \<Rightarrow> (case map_of (mapobj s a) k of None \<Rightarrow> None | Some v \<Rightarrow> v))"

definition map_len :: "store \<Rightarrow> addr option \<Rightarrow> nat" where
  "map_len s m = (case m of None \<Rightarrow> 0 | Some a \<Rightarrow> length (mapobj s a))"

subsection \<open>Package reflect\<close>

text \<open>
  A \<open>reflect.Value\<close> is the zero Value (kind Invalid) or a value with its read-only flag,
  which \<open>Field\<close> sets on values reached through unexported fields.
\<close>

datatype rvalue = Zero_Value | RValue (flagRO: bool) (the_value: gvalue)

definition ValueOf :: "iface \<Rightarrow> rvalue" where
  "ValueOf i = (case i of None \<Rightarrow> Zero_Value | Some v \<Rightarrow> RValue False v)"

fun kind_of :: "gvalue \<Rightarrow> kind" where
  "kind_of (VBool b) = KBool"
| "kind_of (VInt i) = KInt"
| "kind_of (VUint n) = KUint"
| "kind_of (VFloat w) = KFloat"
| "kind_of (VComplex re im) = KComplex"
| "kind_of (VString s) = KString"
| "kind_of (VArray vs) = KArray"
| "kind_of (VSlice vs) = KSlice"
| "kind_of (VMap t m) = KMap"
| "kind_of (VPtr p) = KPtr"
| "kind_of (VChan c) = KChan"
| "kind_of (VFunc f) = KFunc"
| "kind_of (VUnsafePointer p) = KUnsafePointer"
| "kind_of (VInterface d) = KInterface"
| "kind_of (VStruct fs) = KStruct"

definition Kind :: "rvalue \<Rightarrow> kind" where
  "Kind v = (case v of Zero_Value \<Rightarrow> KInvalid | RValue ro x \<Rightarrow> kind_of x)"

definition Elem :: "store \<Rightarrow> rvalue \<Rightarrow> panic + rvalue" where
  "Elem s v =
     (case v of
        RValue ro (VPtr None) \<Rightarrow> Inr Zero_Value
      | RValue ro (VPtr (Some a)) \<Rightarrow> Inr (RValue ro (mem s a))
      | RValue ro (VInterface None) \<Rightarrow> Inr Zero_Value
      | RValue ro (VInterface (Some x)) \<Rightarrow> Inr (RValue ro x)
      | _ \<Rightarrow> Inl (Panic ''reflect: call of reflect.Value.Elem on non-pointer Value''))"

definition NumField :: "rvalue \<Rightarrow> panic + nat" where
  "NumField v =
     (case v of
        RValue ro (VStruct fs) \<Rightarrow> Inr (length fs)
      | _ \<Rightarrow> Inl (Panic ''reflect: call of reflect.Value.NumField on non-struct Value''))"

definition upper_letters :: string where
  "upper_letters = ''ABCDEFGHIJKLMNOPQRSTUVWXYZ''"

definition lower_letters :: string where
  "lower_letters = ''abcdefghijklmnopqrstuvwxyz''"

definition lower_char :: "char \<Rightarrow> char" where
  "lower_char c = (case map_of (zip upper_letters lower_letters) c of None \<Rightarrow> c | Some d \<Rightarrow> d)"

text \<open>
  Case in Unicode. \<open>strings.ToLower\<close> and the export rule are decided here for ASCII, as
  the library does on its fast paths; beyond ASCII they consult the Unicode tables, which
  are a parameter of the model: \<open>first_rune_IsUpper U name\<close> is \<open>unicode.IsUpper\<close> of the
  first rune of \<open>name\<close>, and \<open>Map_ToLower U s\<close> is \<open>strings.Map(unicode.ToLower, s)\<close>. Every
  statement below holds for every \<open>U\<close>.
\<close>

record unicode =
  first_rune_IsUpper :: "string \<Rightarrow> bool"
  Map_ToLower :: "string \<Rightarrow> string"

text \<open>A byte below \<open>utf8.RuneSelf\<close> (0x80).\<close>

definition is_ascii :: "char \<Rightarrow> bool" where
  "is_ascii c = (\<not> digit7 c)"

definition ToLower :: "unicode \<Rightarrow> string \<Rightarrow> string" where
  "ToLower U s = (if list_all is_ascii s then map lower_char s else Map_ToLower U s)"

text \<open>A field is exported when its name starts with an upper-case letter.\<close>

definition IsExported :: "unicode \<Rightarrow> string \<Rightarrow> bool" where
  "IsExported U name =
     (case name of
        [] \<Rightarrow> False
      | c # cs \<Rightarrow> if is_ascii c then c \<in> set upper_letters else first_rune_IsUpper U name)"

definition Field_at :: "unicode \<Rightarrow> rvalue \<Rightarrow> nat \<Rightarrow> panic + rvalue" where
  "Field_at U v i =
     (case v of
        RValue ro (VStruct fs) \<Rightarrow>
          if i < length fs
          then Inr (RValue (ro \<or> \<not> IsExported U (Name (fs ! i))) (Val (fs ! i)))
          else Inl (Panic ''reflect: Field index out of range'')
      | _ \<Rightarrow> Inl (Panic ''reflect: call of reflect.Value.Field on non-struct Value''))"

text \<open>\<open>setType.Field(i)\<close>: the descriptor of field \<open>i\<close> of the struct type.\<close>

definition Type_Field :: "rvalue \<Rightarrow> nat \<Rightarrow> panic + sfield" where
  "Type_Field v i =
     (case v of
        RValue ro (VStruct fs) \<Rightarrow>
          if i < length fs then Inr (fs ! i)
          else Inl (Panic ''reflect: Field index out of bounds'')
      | _ \<Rightarrow> Inl (Panic ''reflect: Field of non-struct type''))"

definition CanInterface :: "rvalue \<Rightarrow> panic + bool" where
  "CanInterface v =
     (case v of
        Zero_Value \<Rightarrow> Inl (Panic ''reflect: call of reflect.Value.CanInterface on zero Value'')
      | RValue ro x \<Rightarrow> Inr (\<not> ro))"

definition Tag_Get :: "(string \<times> string) list \<Rightarrow> string \<Rightarrow> string" where
  "Tag_Get tag key = (case map_of tag key of None \<Rightarrow> [] | Some v \<Rightarrow> v)"

text \<open>
  \<open>reflect.Value.IsZero\<close> on a valid value: nil for the reference kinds, all elements zero
  for an array, all fields other than blank ones zero for a struct, a zero of either sign
  for a float (every bit but the sign bit clear).
\<close>

fun is_zero :: "gvalue \<Rightarrow> bool" and is_zero_field :: "sfield \<Rightarrow> bool" where
  "is_zero (VBool b) = (\<not> b)"
| "is_zero (VInt i) = (i = 0)"
| "is_zero (VUint n) = (n = 0)"
| "is_zero (VFloat w) = (push_bit 1 w = 0)"
| "is_zero (VComplex re im) = (push_bit 1 re = 0 \<and> push_bit 1 im = 0)"
| "is_zero (VString s) = (s = [])"
| "is_zero (VArray vs) = list_all is_zero vs"
| "is_zero (VSlice vs) = (vs = None)"
| "is_zero (VMap t m) = (m = None)"
| "is_zero (VPtr p) = (p = None)"
| "is_zero (VChan c) = (c = None)"
| "is_zero (VFunc f) = (f = None)"
| "is_zero (VUnsafePointer p) = (p = 0)"
| "is_zero (VInterface d) = (d = None)"
| "is_zero (VStruct fs) = list_all is_zero_field fs"
| "is_zero_field (SField n t v) = (is_zero v \<or> n = ''_'')"

definition IsZero :: "rvalue \<Rightarrow> panic + bool" where
  "IsZero v =
     (case v of
        Zero_Value \<Rightarrow> Inl (Panic ''reflect: call of reflect.Value.IsZero on zero Value'')
      | RValue ro x \<Rightarrow> Inr (is_zero x))"

definition Interface :: "rvalue \<Rightarrow> panic + iface" where
  "Interface v =
     (case v of
        Zero_Value \<Rightarrow> Inl (Panic ''reflect: call of reflect.Value.Interface on zero Value'')
      | RValue ro x \<Rightarrow>
          if ro
          then Inl (Panic ''reflect.Value.Interface: cannot return value obtained from unexported field or method'')
          else Inr (case x of VInterface d \<Rightarrow> d | _ \<Rightarrow> Some x))"

subsection \<open>Package strings and slices\<close>

fun Split :: "string \<Rightarrow> char \<Rightarrow> string list" where
  "Split [] sep = [[]]"
| "Split (c # cs) sep =
     (if c = sep then [] # Split cs sep
      else (case Split cs sep of [] \<Rightarrow> [[c]] | p # ps \<Rightarrow> (c # p) # ps))"

definition index :: "'a list \<Rightarrow> nat \<Rightarrow> panic + 'a" where
  "index xs i = (if i < length xs then Inr (xs ! i) else Inl (Panic ''index out of range''))"

definition slice_from :: "'a list \<Rightarrow> nat \<Rightarrow> panic + 'a list" where
  "slice_from xs i =
     (if i \<le> length xs then Inr (drop i xs) else Inl (Panic ''slice bounds out of range''))"

section \<open>src/mongo/utils.go\<close>

fun contains :: "string list \<Rightarrow> string \<Rightarrow> bool" where
  "contains [] item = False"
| "contains (s # rest) item = (if s = item then True else contains rest item)"

text \<open>One iteration of the loop of \<open>BuildUpdateSet\<close>, for index \<open>i\<close>.\<close>

definition BuildUpdateSet_body :: "unicode \<Rightarrow> store \<Rightarrow> rvalue \<Rightarrow> addr \<Rightarrow> nat \<Rightarrow> panic + store" where
  "BuildUpdateSet_body U s setValue setFields i =
     (case Field_at U setValue i of Inl e \<Rightarrow> Inl e | Inr field \<Rightarrow>
      case Type_Field setValue i of Inl e \<Rightarrow> Inl e | Inr fieldType \<Rightarrow>
      case CanInterface field of Inl e \<Rightarrow> Inl e | Inr can \<Rightarrow>
      if \<not> can then Inr s
      else
        let bsonTag = Tag_Get (Tag fieldType) ''bson'' in
        if bsonTag = [] \<or> bsonTag = ''-'' then Inr s
        else
          let tagParts = Split bsonTag CHR '','' in
          case index tagParts 0 of Inl e \<Rightarrow> Inl e | Inr fieldName0 \<Rightarrow>
          let fieldName = (if fieldName0 = [] then ToLower U (Name fieldType) else fieldName0) in
          case (if 1 < length tagParts
                then (case slice_from tagParts 1 of Inl e \<Rightarrow> Inl e | Inr rest \<Rightarrow>
                        if contains rest ''omitempty'' then IsZero field else Inr False)
                else Inr False)
          of Inl e \<Rightarrow> Inl e | Inr skip \<Rightarrow>
          if skip then Inr s
          else if fieldName = ''_id'' then Inr s
          else
            case Interface field of Inl e \<Rightarrow> Inl e | Inr v \<Rightarrow>
            map_assign s (Some setFields) fieldName v)"

function BuildUpdateSet_loop :: "unicode \<Rightarrow> store \<Rightarrow> rvalue \<Rightarrow> addr \<Rightarrow> nat \<Rightarrow> panic + store" where
  "BuildUpdateSet_loop U s setValue setFields i =
     (case NumField setValue of Inl e \<Rightarrow> Inl e | Inr n \<Rightarrow>
      if i < n
      then (case BuildUpdateSet_body U s setValue setFields i of
              Inl e \<Rightarrow> Inl e
            | Inr s' \<Rightarrow> BuildUpdateSet_loop U s' setValue setFields (Suc i))
      else Inr s)"
  by pat_completeness auto
termination
  by (relation "measure (\<lambda>(U, s, setValue, setFields, i).
        (case NumField setValue of Inl e \<Rightarrow> 0 | Inr n \<Rightarrow> n) - i)") auto

declare BuildUpdateSet_loop.simps [simp del]

definition BuildUpdateSet :: "unicode \<Rightarrow> store \<Rightarrow> iface \<Rightarrow> panic + (addr \<times> store)" where
  "BuildUpdateSet U s data =
     (let (update, s1) = make_map s;
          setValue0 = ValueOf data
      in
      case (if Kind setValue0 = KPtr then Elem s1 setValue0 else Inr setValue0) of
        Inl e \<Rightarrow> Inl e
      | Inr setValue \<Rightarrow>
          if Kind setValue \<noteq> KStruct then Inr (update, s1)
          else
            let (setFields, s2) = make_map s1 in
            case BuildUpdateSet_loop U s2 setValue setFields 0 of
              Inl e \<Rightarrow> Inl e
            | Inr s3 \<Rightarrow>
                if 0 < map_len s3 (Some setFields)
                then (case map_assign s3 (Some update) ''$set'' (Some (VMap bson_M (Some setFields))) of
                        Inl e \<Rightarrow> Inl e
                      | Inr s4 \<Rightarrow> Inr (update, s4))
                else Inr (update, s3))"

section \<open>src/mongo/document.go\<close>

text \<open>
  \<open>time.Time\<close> is a struct of three unexported fields; \<open>primitive.ObjectID\<close> is an array
  of twelve bytes. \<open>BaseDocument\<close> and \<open>User\<close> follow the declarations of the source, and
  the \<open>reflect_\<close> functions give the value reflection sees for each, with the tags as
  declared.
\<close>

record Time =
  wall :: "64 word"
  ext :: "64 word"
  loc :: "addr option"

type_synonym ObjectID = "8 word list"

record BaseDocument =
  ID :: ObjectID
  CreatedAt :: Time
  UpdatedAt :: Time

record User_Profile =
  FirstName :: string
  LastName :: string
  Avatar :: string
  Bio :: string

record User =
  BaseDocument :: BaseDocument
  Username :: string
  Email :: string
  Password :: string
  Status :: string
  Profile :: User_Profile

definition reflect_Time :: "Time \<Rightarrow> gvalue" where
  "reflect_Time t =
     VStruct [SField ''wall'' [] (VUint (unat (wall t))),
              SField ''ext'' [] (VInt (sint (ext t))),
              SField ''loc'' [] (VPtr (loc t))]"

definition reflect_ObjectID :: "ObjectID \<Rightarrow> gvalue" where
  "reflect_ObjectID oid = VArray (map (\<lambda>b. VUint (unat b)) oid)"

definition reflect_BaseDocument :: "BaseDocument \<Rightarrow> gvalue" where
  "reflect_BaseDocument d =
     VStruct [SField ''ID'' [(''bson'', ''_id,omitempty''), (''json'', ''id,omitempty'')]
                (reflect_ObjectID (ID d)),
              SField ''CreatedAt'' [(''bson'', ''created_at''), (''json'', ''created_at'')]
                (reflect_Time (CreatedAt d)),
              SField ''UpdatedAt'' [(''bson'', ''updated_at''), (''json'', ''updated_at'')]
                (reflect_Time (UpdatedAt d))]"

definition reflect_User_Profile :: "User_Profile \<Rightarrow> gvalue" where
  "reflect_User_Profile p =
     VStruct [SField ''FirstName'' [(''bson'', ''first_name''), (''json'', ''first_name'')]
                (VString (FirstName p)),
              SField ''LastName'' [(''bson'', ''last_name''), (''json'', ''last_name'')]
                (VString (LastName p)),
              SField ''Avatar'' [(''bson'', ''avatar''), (''json'', ''avatar'')]
                (VString (Avatar p)),
              SField ''Bio'' [(''bson'', ''bio''), (''json'', ''bio'')]
                (VString (Bio p))]"

definition reflect_User :: "User \<Rightarrow> gvalue" where
  "reflect_User u =
     VStruct [SField ''BaseDocument'' [(''bson'', '',inline'')]
                (reflect_BaseDocument (BaseDocument u)),
              SField ''Username'' [(''bson'', ''username''), (''json'', ''username'')]
                (VString (Username u)),
              SField ''Email'' [(''bson'', ''email''), (''json'', ''email'')]
                (VString (Email u)),
              SField ''Password'' [(''bson'', ''password''), (''json'', ''-'')]
                (VString (Password u)),
              SField ''Status'' [(''bson'', ''status''), (''json'', ''status'')]
                (VString (Status u)),
              SField ''Profile'' [(''bson'', ''profile''), (''json'', ''profile'')]
                (reflect_User_Profile (Profile u))]"

text \<open>The zero values of \<open>time.Time\<close> and \<open>User\<close>.\<close>

definition zero_Time :: Time where
  "zero_Time = \<lparr>wall = 0, ext = 0, loc = None\<rparr>"

definition zero_User :: User where
  "zero_User =
     \<lparr>BaseDocument = \<lparr>ID = replicate 12 0, CreatedAt = zero_Time, UpdatedAt = zero_Time\<rparr>,
      Username = [], Email = [], Password = [], Status = [],
      Profile = \<lparr>FirstName = [], LastName = [], Avatar = [], Bio = []\<rparr>\<rparr>"

section \<open>src/mongo/operations.go\<close>

text \<open>
  The type assertion \<open>x.(bson.M)\<close> panics unless the dynamic type of \<open>x\<close> is \<open>bson.M\<close>.
\<close>

definition assert_bson_M :: "iface \<Rightarrow> panic + addr option" where
  "assert_bson_M x =
     (case x of
        Some (VMap t m) \<Rightarrow>
          if t = bson_M then Inr m
          else Inl (Panic ''interface conversion: interface {} is not primitive.M'')
      | _ \<Rightarrow> Inl (Panic ''interface conversion: interface {} is not primitive.M''))"

text \<open>
  \<open>Repository.UpdateOne\<close> and \<open>Repository.UpdateMany\<close>. The driver's collection is a
  parameter: \<open>coll s filter update\<close> is what \<open>r.collection.UpdateOne(ctx, filter, update)\<close>
  (or \<open>UpdateMany\<close>) returns when called in store \<open>s\<close>, an error message or a result.
  \<open>now\<close> is the value of \<open>time.Now()\<close>.
\<close>

definition UpdateOne ::
  "(store \<Rightarrow> addr option \<Rightarrow> addr option \<Rightarrow> string + 'r) \<Rightarrow> gvalue \<Rightarrow>
   store \<Rightarrow> addr option \<Rightarrow> addr option \<Rightarrow> panic + ((string + 'r) \<times> store)" where
  "UpdateOne coll now s filter_doc update =
     (case (if map_index s update ''$set'' = None
            then (let (m, s') = make_map s
                  in map_assign s' update ''$set'' (Some (VMap bson_M (Some m))))
            else Inr s)
      of Inl e \<Rightarrow> Inl e | Inr s1 \<Rightarrow>
      case assert_bson_M (map_index s1 update ''$set'') of Inl e \<Rightarrow> Inl e | Inr m \<Rightarrow>
      case map_assign s1 m ''updated_at'' (Some now) of Inl e \<Rightarrow> Inl e | Inr s2 \<Rightarrow>
      (case coll s2 filter_doc update of
         Inl err \<Rightarrow> Inr (Inl (''failed to update document: '' @ err), s2)
       | Inr result \<Rightarrow> Inr (Inr result, s2)))"

definition UpdateMany ::
  "(store \<Rightarrow> addr option \<Rightarrow> addr option \<Rightarrow> string + 'r) \<Rightarrow> gvalue \<Rightarrow>
   store \<Rightarrow> addr option \<Rightarrow> addr option \<Rightarrow> panic + ((string + 'r) \<times> store)" where
  "UpdateMany coll now s filter_doc update =
     (case (if map_index s update ''$set'' = None
            then (let (m, s') = make_map s
                  in map_assign s' update ''$set'' (Some (VMap bson_M (Some m))))
            else Inr s)
      of Inl e \<Rightarrow> Inl e | Inr s1 \<Rightarrow>
      case assert_bson_M (map_index s1 update ''$set'') of Inl e \<Rightarrow> Inl e | Inr m \<Rightarrow>
      case map_assign s1 m ''updated_at'' (Some now) of Inl e \<Rightarrow> Inl e | Inr s2 \<Rightarrow>
      (case coll s2 filter_doc update of
         Inl err \<Rightarrow> Inr (Inl (''failed to update documents: '' @ err), s2)
       | Inr result \<Rightarrow> Inr (Inr result, s2)))"

section \<open>The specification's vocabulary\<close>

text \<open>
  The definitions of this section follow the words of the specification, not the code:
  the tag grammar \<open>primary_name ("," modifier)*\<close>, the resolved external name, and the
  conditions under which a field is part of the update.
\<close>

definition bson_tag :: "sfield \<Rightarrow> string" where
  "bson_tag f = Tag_Get (Tag f) ''bson''"

definition primary_name :: "string \<Rightarrow> string" where
  "primary_name t = takeWhile (\<lambda>c. c \<noteq> CHR '','') t"

definition modifiers :: "string \<Rightarrow> string list" where
  "modifiers t = tl (Split t CHR '','')"

definition external_name :: "unicode \<Rightarrow> sfield \<Rightarrow> string" where
  "external_name U f =
     (if primary_name (bson_tag f) = [] then ToLower U (Name f) else primary_name (bson_tag f))"

definition has_tag :: "sfield \<Rightarrow> bool" where
  "has_tag f = (bson_tag f \<noteq> [] \<and> bson_tag f \<noteq> ''-'')"

definition omitted_empty :: "sfield \<Rightarrow> bool" where
  "omitted_empty f = (''omitempty'' \<in> set (modifiers (bson_tag f)) \<and> is_zero (Val f))"

text \<open>The field's current value, as the \<open>interface{}\<close> a map entry holds.\<close>

definition field_value :: "sfield \<Rightarrow> iface" where
  "field_value f = (case Val f of VInterface d \<Rightarrow> d | v \<Rightarrow> Some v)"

definition included :: "unicode \<Rightarrow> sfield \<Rightarrow> bool" where
  "included U f =
     (IsExported U (Name f) \<and> has_tag f \<and> \<not> omitted_empty f \<and> external_name U f \<noteq> ''_id'')"

definition field_set :: "unicode \<Rightarrow> sfield list \<Rightarrow> (string \<times> iface) list" where
  "field_set U fs = map (\<lambda>f. (external_name U f, field_value f)) (filter (included U) fs)"

text \<open>
  The input after one dereference: nothing for the untyped nil and for a nil pointer, the
  pointer's target for a pointer, the value itself otherwise.
\<close>

definition target :: "store \<Rightarrow> iface \<Rightarrow> gvalue option" where
  "target s data =
     (case data of
        None \<Rightarrow> None
      | Some (VPtr None) \<Rightarrow> None
      | Some (VPtr (Some a)) \<Rightarrow> Some (mem s a)
      | Some v \<Rightarrow> Some v)"

definition struct_fields :: "gvalue option \<Rightarrow> sfield list option" where
  "struct_fields v = (case v of Some (VStruct fs) \<Rightarrow> Some fs | _ \<Rightarrow> None)"

text \<open>The kind of the input after one dereference (Invalid when there is nothing).\<close>

definition target_kind :: "store \<Rightarrow> iface \<Rightarrow> kind" where
  "target_kind s data = (case target s data of None \<Rightarrow> KInvalid | Some v \<Rightarrow> kind_of v)"

text \<open>The fields that qualify for the update: none unless the input is a struct.\<close>

definition qualifying :: "unicode \<Rightarrow> store \<Rightarrow> iface \<Rightarrow> sfield list" where
  "qualifying U s data =
     (case struct_fields (target s data) of None \<Rightarrow> [] | Some fs \<Rightarrow> filter (included U) fs)"

text \<open>
  Observers of a result: \<open>update_doc\<close> is the content of the returned map, \<open>set_doc\<close> the
  content of the \<open>bson.M\<close> it holds under \<open>"$set"\<close> (nothing when there is no such entry),
  and \<open>set_entry r n\<close> the value bound to \<open>n\<close> there.
\<close>

definition update_doc :: "panic + (addr \<times> store) \<Rightarrow> (string \<times> iface) list option" where
  "update_doc r = (case r of Inl e \<Rightarrow> None | Inr (u, s) \<Rightarrow> Some (mapobj s u))"

definition sub_doc :: "store \<Rightarrow> addr \<Rightarrow> string \<Rightarrow> (string \<times> iface) list option" where
  "sub_doc s u k =
     (case map_of (mapobj s u) k of
        Some (Some (VMap t (Some a))) \<Rightarrow> Some (mapobj s a)
      | _ \<Rightarrow> None)"

definition set_doc :: "panic + (addr \<times> store) \<Rightarrow> (string \<times> iface) list option" where
  "set_doc r = (case r of Inl e \<Rightarrow> None | Inr (u, s) \<Rightarrow> sub_doc s u ''$set'')"

definition set_entry :: "panic + (addr \<times> store) \<Rightarrow> string \<Rightarrow> iface option" where
  "set_entry r n = (case set_doc r of None \<Rightarrow> None | Some al \<Rightarrow> map_of al n)"

text \<open>
  Structural view of a document: its pairs, with every entry that refers to a map object
  replaced by that object's content.
\<close>

definition doc_view ::
  "store \<Rightarrow> addr \<Rightarrow> (string \<times> (iface + (string \<times> (string \<times> iface) list))) list" where
  "doc_view s u =
     map (\<lambda>(k, v). (k, case v of Some (VMap t (Some a)) \<Rightarrow> Inr (t, mapobj s a) | _ \<Rightarrow> Inl v))
       (mapobj s u)"

text \<open>A store with nothing allocated, and the records of the concrete scenarios.\<close>

definition empty_store :: store where
  "empty_store = \<lparr>mem = (\<lambda>a. VBool False), mapobj = (\<lambda>a. []), nextmap = 0\<rparr>"

definition scenario_record :: "gvalue \<Rightarrow> string \<Rightarrow> gvalue" where
  "scenario_record idv bio =
     VStruct [SField ''ID'' [(''bson'', ''_id'')] idv,
              SField ''Name'' [(''bson'', ''username'')] (VString ''alice''),
              SField ''Bio'' [(''bson'', ''profile.bio,omitempty'')] (VString bio)]"

text \<open>
  For the scenarios of \<open>UpdateOne\<close>: a collection whose driver accepts every update, and a
  store whose one map object is \<open>bson.M{"$set": map[string]interface{}{}}\<close>, the inner map
  being of the plain map type, not of type \<open>bson.M\<close>.
\<close>

definition accepting_collection :: "store \<Rightarrow> addr option \<Rightarrow> addr option \<Rightarrow> string + unit" where
  "accepting_collection s filter_doc update = Inr ()"

definition plain_map_store :: store where
  "plain_map_store =
     empty_store\<lparr>mapobj := (mapobj empty_store)
                    (0 := [(''$set'', Some (VMap ''map[string]interface {}'' (Some 1)))]),
                 nextmap := 2\<rparr>"

text \<open>
  A Unicode table that knows one letter beyond ASCII, E with acute accent: the upper-case
  letter is the bytes C3 89 in UTF-8, the lower-case one C3 A9. It serves the scenarios
  with a field name outside ASCII.
\<close>

fun lower_E_acute :: "string \<Rightarrow> string" where
  "lower_E_acute (c # d # cs) =
     (if c = CHR 0xC3 \<and> d = CHR 0x89 then CHR 0xC3 # CHR 0xA9 # lower_E_acute cs
      else lower_char c # lower_E_acute (d # cs))"
| "lower_E_acute [c] = [lower_char c]"
| "lower_E_acute [] = []"

definition sample_unicode :: unicode where
  "sample_unicode =
     \<lparr>first_rune_IsUpper = (\<lambda>name. take 2 name = [CHR 0xC3, CHR 0x89]),
      Map_ToLower = lower_E_acute\<rparr>"

text \<open>
  The inclusion rule as the specification words it, without the identity-field rule: an
  exported field has its entry exactly when it has a tag and is not omitted as empty.
\<close>

definition spec_field_rule :: "unicode \<Rightarrow> panic + (addr \<times> store) \<Rightarrow> sfield list \<Rightarrow> bool" where
  "spec_field_rule U r fs =
     (\<forall>f \<in> set fs. IsExported U (Name f) \<longrightarrow>
        (set_entry r (external_name U f) = Some (field_value f)) = (has_tag f \<and> \<not> omitted_empty f))"

text \<open>
  The rule for inline fields in its general wording: every field tagged \<open>",inline"\<close> has its
  lower-cased identifier bound to its whole value.
\<close>

definition spec_inline_rule :: "unicode \<Rightarrow> panic + (addr \<times> store) \<Rightarrow> sfield list \<Rightarrow> bool" where
  "spec_inline_rule U r fs =
     (\<forall>f \<in> set fs. bson_tag f = '',inline'' \<longrightarrow>
        set_entry r (ToLower U (Name f)) = Some (field_value f))"

section \<open>Auxiliary definitions\<close>

text \<open>
  What one iteration does to the content of \<open>setFields\<close>, and the store \<open>BuildUpdateSet\<close>
  leaves behind, given the fields of the struct it walked (or none).
\<close>

definition assign_field :: "unicode \<Rightarrow> (string \<times> iface) list \<Rightarrow> sfield \<Rightarrow> (string \<times> iface) list" where
  "assign_field U al f =
     (if included U f then AList.update (external_name U f) (field_value f) al else al)"

definition result_store :: "unicode \<Rightarrow> store \<Rightarrow> sfield list option \<Rightarrow> store" where
  "result_store U s fso =
     (case fso of
        None \<Rightarrow> s\<lparr>mapobj := (mapobj s)(nextmap s := []), nextmap := Suc (nextmap s)\<rparr>
      | Some fs \<Rightarrow>
          s\<lparr>mapobj := (mapobj s)
               (nextmap s := (if foldl (assign_field U) [] fs = [] then []
                              else [(''$set'', Some (VMap bson_M (Some (Suc (nextmap s)))))]),
                Suc (nextmap s) := foldl (assign_field U) [] fs),
            nextmap := Suc (Suc (nextmap s))\<rparr>)"

text \<open>
  The store in which \<open>UpdateOne\<close> and \<open>UpdateMany\<close> call the driver, when the update map at
  \<open>u\<close> has no \<open>"$set"\<close> (or a nil one), and when it has the \<open>bson.M\<close> at \<open>m\<close> there.
\<close>

definition stamped_new :: "store \<Rightarrow> gvalue \<Rightarrow> addr \<Rightarrow> store" where
  "stamped_new s now u =
     s\<lparr>nextmap := Suc (nextmap s),
       mapobj := (mapobj s)
          (u := AList.update ''$set'' (Some (VMap bson_M (Some (nextmap s)))) (mapobj s u),
           nextmap s := [(''updated_at'', Some now)])\<rparr>"

definition stamped_old :: "store \<Rightarrow> gvalue \<Rightarrow> addr \<Rightarrow> store" where
  "stamped_old s now m =
     s\<lparr>mapobj := (mapobj s)(m := AList.update ''updated_at'' (Some now) (mapobj s m))\<rparr>"

section \<open>The loop of BuildUpdateSet\<close>

lemma Split_not_Nil: "Split s c \<noteq> []"
  by (induction s) (auto split: list.splits)

lemma hd_Split: "hd (Split s c) = takeWhile (\<lambda>x. x \<noteq> c) s"
  by (induction s) (auto simp: Split_not_Nil split: list.splits)

lemma contains_iff: "contains xs x = (x \<in> set xs)"
  by (induction xs) auto

text \<open>
  On a struct reached from the argument (read-only flag clear), iteration \<open>i\<close> never panics
  and assigns exactly when field \<open>i\<close> is \<open>included\<close>.
\<close>

lemma body_char:
  assumes "i < length fs"
  shows "BuildUpdateSet_body U s (RValue False (VStruct fs)) sf i =
         Inr (s\<lparr>mapobj := (mapobj s)(sf := assign_field U (mapobj s sf) (fs ! i))\<rparr>)"
proof -
  obtain p ps where sp: "Split (bson_tag (fs ! i)) CHR '','' = p # ps"
    using Split_not_Nil by (cases "Split (bson_tag (fs ! i)) CHR '',''") auto
  have p: "p = primary_name (bson_tag (fs ! i))"
    using hd_Split[of "bson_tag (fs ! i)" "CHR '',''"] sp by (simp add: primary_name_def)
  have ps: "modifiers (bson_tag (fs ! i)) = ps"
    using sp by (simp add: modifiers_def)
  show ?thesis
    using assms sp
    by (cases "Val (fs ! i)")
       (auto simp: BuildUpdateSet_body_def Field_at_def Type_Field_def CanInterface_def
        assign_field_def included_def has_tag_def omitted_empty_def external_name_def
        field_value_def index_def slice_from_def IsZero_def Interface_def map_assign_def
        contains_iff p[symmetric] ps bson_tag_def[symmetric] Let_def)
qed

lemma loop_char:
  "BuildUpdateSet_loop U s (RValue False (VStruct fs)) sf i =
   Inr (s\<lparr>mapobj := (mapobj s)(sf := foldl (assign_field U) (mapobj s sf) (drop i fs))\<rparr>)"
proof (induction "length fs - i" arbitrary: s i)
  case 0
  then show ?case
    by (subst BuildUpdateSet_loop.simps) (simp add: NumField_def)
next
  case (Suc n)
  then have lt: "i < length fs" and n: "n = length fs - Suc i" by auto
  have d: "drop i fs = fs ! i # drop (Suc i) fs"
    using lt by (simp add: Cons_nth_drop_Suc)
  show ?case
    by (subst BuildUpdateSet_loop.simps)
       (simp add: NumField_def lt body_char Suc.hyps(1)[OF n] d)
qed

text \<open>The whole function, on every store and every argument.\<close>

lemma BuildUpdateSet_char:
  "BuildUpdateSet U s data = Inr (nextmap s, result_store U s (struct_fields (target s data)))"
proof (cases data)
  case None
  then show ?thesis
    by (simp add: BuildUpdateSet_def make_map_def ValueOf_def Kind_def result_store_def
        struct_fields_def target_def)
next
  case (Some v)
  show ?thesis
  proof (cases v)
    case (VStruct fs)
    then show ?thesis using Some
      by (auto simp: BuildUpdateSet_def make_map_def ValueOf_def Kind_def result_store_def
        struct_fields_def target_def loop_char map_len_def map_assign_def fun_upd_twist)
  next
    case (VPtr p)
    show ?thesis
    proof (cases p)
      case None
      then show ?thesis using Some VPtr
        by (simp add: BuildUpdateSet_def make_map_def ValueOf_def Kind_def Elem_def
            result_store_def struct_fields_def target_def)
    next
      case (Some a)
      then show ?thesis using \<open>data = Some v\<close> VPtr
        by (cases "mem s a")
           (auto simp: BuildUpdateSet_def make_map_def ValueOf_def Kind_def Elem_def
             result_store_def struct_fields_def target_def loop_char map_len_def
             map_assign_def fun_upd_twist)
    qed
  qed (use Some in \<open>simp_all add: BuildUpdateSet_def make_map_def ValueOf_def Kind_def
        result_store_def struct_fields_def target_def\<close>)
qed

lemma map_of_foldl_assign:
  "map_of (foldl (assign_field U) al fs) = map_of al ++ map_of (rev (field_set U fs))"
  by (induction fs arbitrary: al)
     (auto simp: assign_field_def field_set_def update_conv' map_add_upd_left)

lemma update_not_Nil: "AList.update k v al \<noteq> []"
  by (cases al) auto

lemma foldl_assign_Nil_iff:
  "foldl (assign_field U) al fs = [] \<longleftrightarrow> al = [] \<and> filter (included U) fs = []"
  by (induction fs arbitrary: al) (auto simp: assign_field_def update_not_Nil)

lemma find_app:
  "find P (xs @ ys) = (case find P xs of None \<Rightarrow> find P ys | Some x \<Rightarrow> Some x)"
  by (induction xs) auto

lemma map_of_rev_field_set:
  "map_of (rev (field_set U fs)) n =
   map_option field_value (find (\<lambda>f. included U f \<and> external_name U f = n) (rev fs))"
  by (induction fs) (auto simp: field_set_def find_app map_add_def split: option.splits)

lemma update_doc_BuildUpdateSet:
  "update_doc (BuildUpdateSet U s data) =
   Some (case struct_fields (target s data) of
           None \<Rightarrow> []
         | Some fs \<Rightarrow> if filter (included U) fs = [] then []
                      else [(''$set'', Some (VMap bson_M (Some (Suc (nextmap s)))))])"
  by (simp add: BuildUpdateSet_char update_doc_def result_store_def foldl_assign_Nil_iff
      split: option.splits)

lemma set_doc_BuildUpdateSet:
  "set_doc (BuildUpdateSet U s data) =
   (case struct_fields (target s data) of
      None \<Rightarrow> None
    | Some fs \<Rightarrow> if filter (included U) fs = [] then None else Some (foldl (assign_field U) [] fs))"
  by (simp add: BuildUpdateSet_char set_doc_def sub_doc_def result_store_def foldl_assign_Nil_iff
      split: option.splits)

lemma set_entry_BuildUpdateSet:
  "set_entry (BuildUpdateSet U s data) n =
   (case struct_fields (target s data) of
      None \<Rightarrow> None
    | Some fs \<Rightarrow> map_of (rev (field_set U fs)) n)"
  by (simp add: set_entry_def set_doc_BuildUpdateSet map_of_foldl_assign field_set_def
      split: option.splits)

lemma find_Some_set: "find P xs = Some x \<Longrightarrow> x \<in> set xs \<and> P x"
  by (induction xs) (auto split: if_splits)

lemma struct_fields_None_kind:
  "struct_fields (target s data) = None \<longleftrightarrow> target_kind s data \<noteq> KStruct"
  by (cases "target s data"; simp add: struct_fields_def target_kind_def)
     (rename_tac v, case_tac v; simp)

lemma set_doc_fields:
  assumes "target s data = Some (VStruct fs)"
  shows "set_doc (BuildUpdateSet U s data) =
         (if filter (included U) fs = [] then None else Some (foldl (assign_field U) [] fs))"
  using assms by (simp add: set_doc_BuildUpdateSet struct_fields_def)

lemma target_result_store: "target (result_store U s fso) data = target s data"
  by (simp add: target_def result_store_def split: option.splits gvalue.splits)

lemma BuildUpdateSet_result_shape:
  assumes "BuildUpdateSet U s0 data = Inr (u0, s1)"
  shows "u0 < nextmap s1 \<and>
         (mapobj s1 u0 = [] \<or> mapobj s1 u0 = [(''$set'', Some (VMap bson_M (Some (Suc u0))))])"
  using assms
  by (cases "struct_fields (target s0 data)")
     (auto simp: BuildUpdateSet_char result_store_def split: if_splits)

section \<open>UpdateOne and UpdateMany\<close>

text \<open>
  Both functions, in the two cases where they reach the driver: \<open>"$set"\<close> absent or nil,
  and \<open>"$set"\<close> a non-nil \<open>bson.M\<close>.
\<close>

lemma UpdateOne_new:
  assumes "u < nextmap s" "map_index s (Some u) ''$set'' = None"
  shows "UpdateOne coll now s f (Some u) =
         Inr (case coll (stamped_new s now u) f (Some u) of
                Inl err \<Rightarrow> Inl (''failed to update document: '' @ err)
              | Inr result \<Rightarrow> Inr result, stamped_new s now u)"
proof -
  have ne: "u \<noteq> nextmap s" using assms(1) by simp
  show ?thesis
    using assms(2) ne
    by (cases "coll (stamped_new s now u) f (Some u)")
       (simp_all add: UpdateOne_def make_map_def map_assign_def map_index_def update_conv'
        assert_bson_M_def stamped_new_def fun_upd_twist)
qed

lemma UpdateMany_new:
  assumes "u < nextmap s" "map_index s (Some u) ''$set'' = None"
  shows "UpdateMany coll now s f (Some u) =
         Inr (case coll (stamped_new s now u) f (Some u) of
                Inl err \<Rightarrow> Inl (''failed to update documents: '' @ err)
              | Inr result \<Rightarrow> Inr result, stamped_new s now u)"
proof -
  have ne: "u \<noteq> nextmap s" using assms(1) by simp
  show ?thesis
    using assms(2) ne
    by (cases "coll (stamped_new s now u) f (Some u)")
       (simp_all add: UpdateMany_def make_map_def map_assign_def map_index_def update_conv'
        assert_bson_M_def stamped_new_def fun_upd_twist)
qed

lemma UpdateOne_old:
  assumes "map_index s (Some u) ''$set'' = Some (VMap bson_M (Some m))"
  shows "UpdateOne coll now s f (Some u) =
         Inr (case coll (stamped_old s now m) f (Some u) of
                Inl err \<Rightarrow> Inl (''failed to update document: '' @ err)
              | Inr result \<Rightarrow> Inr result, stamped_old s now m)"
  using assms
  by (cases "coll (stamped_old s now m) f (Some u)")
     (simp_all add: UpdateOne_def map_assign_def assert_bson_M_def stamped_old_def)

lemma UpdateMany_old:
  assumes "map_index s (Some u) ''$set'' = Some (VMap bson_M (Some m))"
  shows "UpdateMany coll now s f (Some u) =
         Inr (case coll (stamped_old s now m) f (Some u) of
                Inl err \<Rightarrow> Inl (''failed to update documents: '' @ err)
              | Inr result \<Rightarrow> Inr result, stamped_old s now m)"
  using assms
  by (cases "coll (stamped_old s now m) f (Some u)")
     (simp_all add: UpdateMany_def map_assign_def assert_bson_M_def stamped_old_def)

lemma stamped_new_props:
  assumes "u < nextmap s"
  shows "map_of (mapobj (stamped_new s now u) u) =
           (map_of (mapobj s u))(''$set'' \<mapsto> Some (VMap bson_M (Some (nextmap s))))"
    and "mapobj (stamped_new s now u) (nextmap s) = [(''updated_at'', Some now)]"
    and "mem (stamped_new s now u) = mem s"
  using assms by (simp_all add: stamped_new_def update_conv')

lemma stamped_old_props:
  assumes "map_index s (Some u) ''$set'' = Some (VMap bson_M (Some m))"
  shows "map_of (mapobj (stamped_old s now m) u) ''$set'' = Some (Some (VMap bson_M (Some m)))"
    and "map_of (mapobj (stamped_old s now m) m) = (map_of (mapobj s m))(''updated_at'' \<mapsto> Some now)"
    and "mem (stamped_old s now m) = mem s"
  using assms
  by (auto simp: stamped_old_def update_conv' map_index_def split: option.splits)

text \<open>Unfolding rules for evaluating the specification's vocabulary on concrete records.\<close>

lemmas eval_defs =
  target_def struct_fields_def included_def IsExported_def has_tag_def omitted_empty_def
  external_name_def bson_tag_def Tag_Get_def primary_name_def modifiers_def field_value_def
  ToLower_def is_ascii_def lower_char_def upper_letters_def lower_letters_def
  empty_store_def scenario_record_def sample_unicode_def

lemma lower_char_upper: "c \<in> set upper_letters \<Longrightarrow> lower_char c \<noteq> CHR ''_''"
  by (auto simp: upper_letters_def lower_char_def lower_letters_def)

lemma ToLower_ascii: "list_all is_ascii name \<Longrightarrow> ToLower U name = map lower_char name"
  by (simp add: ToLower_def)

lemma ToLower_exported_ascii_not_id:
  assumes "list_all is_ascii name" "IsExported U name"
  shows "ToLower U name \<noteq> ''_id''"
proof (cases name)
  case Nil
  then show ?thesis using assms(2) by (simp add: IsExported_def)
next
  case (Cons c cs)
  then have "c \<in> set upper_letters"
    using assms by (simp add: IsExported_def)
  then have "lower_char c \<noteq> CHR ''_''"
    by (rule lower_char_upper)
  then show ?thesis
    using Cons assms(1) by (simp add: ToLower_def)
qed

section \<open>Claims\<close>

subsection \<open>C1: which fields are part of the update\<close>

text \<open>
  C1, as amended. For a struct passed directly or behind one pointer, with fields \<open>fs\<close>:
  the mapping under \<open>"$set"\<close> binds a name \<open>n\<close> if and only if some field is exported, has
  a bson tag that is neither absent nor exactly \<open>"-"\<close>, is not marked \<open>omitempty\<close> while
  holding the zero value of its type, and resolves to the external name \<open>n\<close> with
  \<open>n\<close> other than \<open>"_id"\<close> (the four conditions of \<open>included\<close>). The value bound to \<open>n\<close> is
  the current value of the last such field in declaration order; so a field that is the
  only included one with its external name has that name bound to its own current value.
\<close>

theorem C1_field_included_iff:
  assumes "target s data = Some (VStruct fs)"
  shows "(set_entry (BuildUpdateSet U s data) n \<noteq> None \<longleftrightarrow>
            (\<exists>f \<in> set fs. included U f \<and> external_name U f = n)) \<and>
         set_entry (BuildUpdateSet U s data) n =
           map_option field_value (find (\<lambda>f. included U f \<and> external_name U f = n) (rev fs)) \<and>
         (\<forall>f \<in> set fs. included U f \<and>
              (\<forall>g \<in> set fs. included U g \<and> external_name U g = external_name U f \<longrightarrow> g = f) \<longrightarrow>
              set_entry (BuildUpdateSet U s data) (external_name U f) = Some (field_value f))"
proof -
  have e: "\<And>m. set_entry (BuildUpdateSet U s data) m =
      map_option field_value (find (\<lambda>f. included U f \<and> external_name U f = m) (rev fs))"
    using assms by (simp add: set_entry_BuildUpdateSet struct_fields_def map_of_rev_field_set)
  have k: "(set_entry (BuildUpdateSet U s data) n \<noteq> None) =
           (\<exists>f \<in> set fs. included U f \<and> external_name U f = n)"
    by (auto simp: e find_None_iff)
  have u: "set_entry (BuildUpdateSet U s data) (external_name U f) = Some (field_value f)"
    if f: "f \<in> set fs" "included U f"
      and uniq: "\<forall>g \<in> set fs. included U g \<and> external_name U g = external_name U f \<longrightarrow> g = f"
    for f
  proof -
    have "find (\<lambda>g. included U g \<and> external_name U g = external_name U f) (rev fs) \<noteq> None"
      using f by (auto simp: find_None_iff)
    then obtain g where g: "find (\<lambda>g. included U g \<and> external_name U g = external_name U f) (rev fs) = Some g"
      by auto
    then have "g \<in> set fs" "included U g" "external_name U g = external_name U f"
      using find_Some_set[OF g] by auto
    then have "g = f" using uniq by blast
    then show ?thesis using g by (simp add: e)
  qed
  show ?thesis using e k u by blast
qed

theorem C1_field_included_iff_witness:
  "target empty_store (Some (scenario_record (VInt 7) ''hello'')) =
     Some (VStruct [SField ''ID'' [(''bson'', ''_id'')] (VInt 7),
                    SField ''Name'' [(''bson'', ''username'')] (VString ''alice''),
                    SField ''Bio'' [(''bson'', ''profile.bio,omitempty'')] (VString ''hello'')]) \<and>
   set_entry (BuildUpdateSet sample_unicode empty_store (Some (scenario_record (VInt 7) ''hello'')))
       ''profile.bio'' =
     Some (Some (VString ''hello'')) \<and>
   target empty_store
     (Some (VStruct [SField (CHR 0xC3 # CHR 0x89 # ''lan'') [(''bson'', ''elan'')] (VString ''x'')])) =
     Some (VStruct [SField (CHR 0xC3 # CHR 0x89 # ''lan'') [(''bson'', ''elan'')] (VString ''x'')]) \<and>
   included sample_unicode (SField (CHR 0xC3 # CHR 0x89 # ''lan'') [(''bson'', ''elan'')] (VString ''x'')) \<and>
   set_entry (BuildUpdateSet sample_unicode empty_store
       (Some (VStruct [SField (CHR 0xC3 # CHR 0x89 # ''lan'') [(''bson'', ''elan'')] (VString ''x'')])))
       ''elan'' =
     Some (Some (VString ''x''))"
  using C1_field_included_iff [of empty_store "Some (scenario_record (VInt 7) ''hello'')"
      "[SField ''ID'' [(''bson'', ''_id'')] (VInt 7),
        SField ''Name'' [(''bson'', ''username'')] (VString ''alice''),
        SField ''Bio'' [(''bson'', ''profile.bio,omitempty'')] (VString ''hello'')]"
      sample_unicode "''profile.bio''"]
    C1_field_included_iff [of empty_store
      "Some (VStruct [SField (CHR 0xC3 # CHR 0x89 # ''lan'') [(''bson'', ''elan'')] (VString ''x'')])"
      "[SField (CHR 0xC3 # CHR 0x89 # ''lan'') [(''bson'', ''elan'')] (VString ''x'')]"
      sample_unicode "''elan''"]
  by (simp add: eval_defs)

text \<open>
  C1 as the specification states it, with conditions (a) and (b) only, fails on a field
  tagged \<open>"_id"\<close>: it is exported, tagged and not omitted, and it has no entry.
\<close>

theorem C1_counterexample:
  "\<not> spec_field_rule sample_unicode
       (BuildUpdateSet sample_unicode empty_store (Some (VStruct [SField ''ID'' [(''bson'', ''_id'')] (VInt 7)])))
       [SField ''ID'' [(''bson'', ''_id'')] (VInt 7)]"
  by (simp add: spec_field_rule_def set_entry_BuildUpdateSet field_set_def eval_defs)

subsection \<open>C2: the identity field is never part of the update\<close>

text \<open>
  C2. For every store and every argument, \<open>BuildUpdateSet\<close> returns, and the mapping under
  \<open>"$set"\<close> of what it returns has no key \<open>"_id"\<close>: a field that resolves to \<open>"_id"\<close> is
  skipped whatever its tag's modifiers and its value are.
\<close>

theorem C2_no_identity_entry:
  "\<exists>u s'. BuildUpdateSet U s data = Inr (u, s') \<and>
     set_entry (Inr (u, s')) ''_id'' = None \<and>
     (\<forall>sf. map_of (mapobj s' u) ''$set'' = Some (Some (VMap bson_M (Some sf))) \<longrightarrow>
           map_of (mapobj s' sf) ''_id'' = None)"
proof -
  obtain u s' where r: "BuildUpdateSet U s data = Inr (u, s')"
    by (simp add: BuildUpdateSet_char)
  have "find (\<lambda>f. included U f \<and> external_name U f = ''_id'') xs = None" for xs
    by (auto simp: find_None_iff included_def)
  then have e: "set_entry (Inr (u, s')) ''_id'' = None"
    using set_entry_BuildUpdateSet[of U s data "''_id''"] r
    by (simp add: map_of_rev_field_set split: option.splits)
  then have "\<forall>sf. map_of (mapobj s' u) ''$set'' = Some (Some (VMap bson_M (Some sf))) \<longrightarrow>
           map_of (mapobj s' sf) ''_id'' = None"
    by (auto simp: set_entry_def set_doc_def sub_doc_def)
  with r e show ?thesis by blast
qed

theorem C2_no_identity_entry_witness:
  "\<exists>u s'. BuildUpdateSet sample_unicode empty_store (Some (scenario_record (VInt 7) ''hello'')) = Inr (u, s') \<and>
     map_of (mapobj s' u) ''$set'' = Some (Some (VMap bson_M (Some 1))) \<and>
     map_of (mapobj s' 1) ''username'' = Some (Some (VString ''alice'')) \<and>
     map_of (mapobj s' 1) ''_id'' = None"
  using C2_no_identity_entry [of sample_unicode empty_store "Some (scenario_record (VInt 7) ''hello'')"]
  by (auto simp: BuildUpdateSet_char result_store_def assign_field_def eval_defs bson_M_def)

subsection \<open>C3: at most the key "$set"\<close>

text \<open>
  C3. For every store and every argument the returned map is empty when no field
  qualifies, and otherwise holds the single pair \<open>"$set"\<close>, bound to a non-empty \<open>bson.M\<close>
  whose bindings are those of the qualifying fields (a later field winning over an
  earlier one of the same external name).
\<close>

theorem C3_at_most_set:
  "\<exists>u s'. BuildUpdateSet U s data = Inr (u, s') \<and>
     (qualifying U s data = [] \<longrightarrow> mapobj s' u = []) \<and>
     (qualifying U s data \<noteq> [] \<longrightarrow>
        (\<exists>sf. mapobj s' u = [(''$set'', Some (VMap bson_M (Some sf)))] \<and>
              mapobj s' sf \<noteq> [] \<and>
              map_of (mapobj s' sf) =
                map_of (rev (map (\<lambda>f. (external_name U f, field_value f)) (qualifying U s data)))))"
proof (cases "struct_fields (target s data)")
  case None
  then show ?thesis
    by (simp add: BuildUpdateSet_char result_store_def qualifying_def)
next
  case (Some fs)
  show ?thesis
  proof (cases "filter (included U) fs = []")
    case True
    then show ?thesis using Some
      by (simp add: BuildUpdateSet_char result_store_def qualifying_def foldl_assign_Nil_iff)
  next
    case False
    then show ?thesis using Some
      by (simp add: BuildUpdateSet_char result_store_def qualifying_def foldl_assign_Nil_iff
          map_of_foldl_assign field_set_def)
  qed
qed

theorem C3_at_most_set_witness:
  "qualifying sample_unicode empty_store (Some (scenario_record (VInt 7) [])) =
     [SField ''Name'' [(''bson'', ''username'')] (VString ''alice'')] \<and>
   qualifying sample_unicode empty_store (Some (VStruct [SField ''ID'' [(''bson'', ''_id'')] (VInt 7)])) = [] \<and>
   (\<exists>u s'. BuildUpdateSet sample_unicode empty_store (Some (scenario_record (VInt 7) [])) = Inr (u, s') \<and>
      (\<exists>sf. mapobj s' u = [(''$set'', Some (VMap bson_M (Some sf)))] \<and>
            map_of (mapobj s' sf) = map_of [(''username'', Some (VString ''alice''))])) \<and>
   (\<exists>u s'. BuildUpdateSet sample_unicode empty_store (Some (VStruct [SField ''ID'' [(''bson'', ''_id'')] (VInt 7)]))
              = Inr (u, s') \<and> mapobj s' u = []) \<and>
   qualifying sample_unicode empty_store (Some (VStruct [SField (CHR 0xC3 # CHR 0x89 # ''lan'') [(''bson'', ''elan'')] (VString ''x'')])) =
     [SField (CHR 0xC3 # CHR 0x89 # ''lan'') [(''bson'', ''elan'')] (VString ''x'')] \<and>
   (\<exists>u s'. BuildUpdateSet sample_unicode empty_store (Some (VStruct [SField (CHR 0xC3 # CHR 0x89 # ''lan'') [(''bson'', ''elan'')] (VString ''x'')]))
              = Inr (u, s') \<and>
      (\<exists>sf. mapobj s' u = [(''$set'', Some (VMap bson_M (Some sf)))] \<and>
            map_of (mapobj s' sf) = map_of [(''elan'', Some (VString ''x''))]))"
proof -
  have q1: "qualifying sample_unicode empty_store (Some (scenario_record (VInt 7) [])) =
     [SField ''Name'' [(''bson'', ''username'')] (VString ''alice'')]"
    by (simp add: qualifying_def eval_defs)
  have q2: "qualifying sample_unicode empty_store (Some (VStruct [SField ''ID'' [(''bson'', ''_id'')] (VInt 7)])) = []"
    by (simp add: qualifying_def eval_defs)
  have q3: "qualifying sample_unicode empty_store (Some (VStruct [SField (CHR 0xC3 # CHR 0x89 # ''lan'') [(''bson'', ''elan'')] (VString ''x'')])) =
     [SField (CHR 0xC3 # CHR 0x89 # ''lan'') [(''bson'', ''elan'')] (VString ''x'')]"
    by (simp add: qualifying_def eval_defs)
  show ?thesis
    using C3_at_most_set [of sample_unicode empty_store "Some (scenario_record (VInt 7) [])"]
      C3_at_most_set [of sample_unicode empty_store "Some (VStruct [SField ''ID'' [(''bson'', ''_id'')] (VInt 7)])"]
      C3_at_most_set [of sample_unicode empty_store "Some (VStruct [SField (CHR 0xC3 # CHR 0x89 # ''lan'') [(''bson'', ''elan'')] (VString ''x'')])"]
    unfolding q1 q2 q3
    by (simp add: eval_defs) blast
qed

subsection \<open>C4: no panic on any input\<close>

text \<open>
  C4. \<open>BuildUpdateSet\<close> is total: on every store and every argument, the untyped nil, a
  nil pointer and values of every kind included, it returns a map and raises no panic; for
  the untyped nil and for a nil pointer the map it returns is empty.
\<close>

theorem C4_total:
  "(\<exists>u s'. BuildUpdateSet U s data = Inr (u, s')) \<and>
   update_doc (BuildUpdateSet U s None) = Some [] \<and>
   update_doc (BuildUpdateSet U s (Some (VPtr None))) = Some []"
proof -
  have "\<exists>u s'. BuildUpdateSet U s data = Inr (u, s')"
    by (simp add: BuildUpdateSet_char)
  moreover have "update_doc (BuildUpdateSet U s None) = Some []"
    by (simp add: update_doc_BuildUpdateSet struct_fields_def target_def)
  moreover have "update_doc (BuildUpdateSet U s (Some (VPtr None))) = Some []"
    by (simp add: update_doc_BuildUpdateSet struct_fields_def target_def)
  ultimately show ?thesis by blast
qed

subsection \<open>C5: anything but a struct gives the empty map\<close>

text \<open>
  C5. When the argument, after one dereference, is not of kind Struct, the returned map
  is empty and no panic is raised.
\<close>

theorem C5_non_struct_empty:
  assumes "target_kind s data \<noteq> KStruct"
  shows "update_doc (BuildUpdateSet U s data) = Some []"
  using assms
  by (simp add: update_doc_BuildUpdateSet struct_fields_None_kind[symmetric])

theorem C5_non_struct_empty_witness:
  "target_kind empty_store (Some (VInt 5)) \<noteq> KStruct \<and>
   update_doc (BuildUpdateSet sample_unicode empty_store (Some (VInt 5))) = Some [] \<and>
   target_kind empty_store (Some (VMap ''map[string]int'' (Some 0))) \<noteq> KStruct \<and>
   update_doc (BuildUpdateSet sample_unicode empty_store (Some (VMap ''map[string]int'' (Some 0)))) = Some [] \<and>
   target_kind empty_store (Some (VPtr (Some 0))) \<noteq> KStruct \<and>
   update_doc (BuildUpdateSet sample_unicode empty_store (Some (VPtr (Some 0)))) = Some []"
  using C5_non_struct_empty [of empty_store "Some (VInt 5)" sample_unicode]
    C5_non_struct_empty [of empty_store "Some (VMap ''map[string]int'' (Some 0))" sample_unicode]
    C5_non_struct_empty [of empty_store "Some (VPtr (Some 0))" sample_unicode]
  by (simp add: target_kind_def eval_defs)

subsection \<open>C6: name resolution\<close>

text \<open>
  C6. In a struct passed directly or behind one pointer, an included field (exported,
  with a tag, not omitted as empty, not resolving to \<open>"_id"\<close>) whose tag has an empty primary
  name (nothing before the first comma) appears under the lower-cased field identifier:
  that name is bound in the mapping under \<open>"$set"\<close>, and bound to the field's own value when
  no other included field resolves to the same name. For an exported identifier made of
  ASCII characters the lower-cased identifier is the identifier with A to Z replaced by a
  to z, and it is never \<open>"_id"\<close>. A field whose whole bson tag is \<open>"-"\<close> never appears,
  whatever its value: the mapping under \<open>"$set"\<close> is the one obtained from the struct
  without that field.
\<close>

theorem C6_name_resolution:
  "(target s data = Some (VStruct fs) \<and> f \<in> set fs \<and> IsExported U (Name f) \<and> has_tag f \<and>
    \<not> omitted_empty f \<and> primary_name (bson_tag f) = [] \<and> ToLower U (Name f) \<noteq> ''_id'' \<longrightarrow>
      set_entry (BuildUpdateSet U s data) (ToLower U (Name f)) \<noteq> None \<and>
      ((\<forall>g \<in> set fs. included U g \<and> external_name U g = ToLower U (Name f) \<longrightarrow> g = f) \<longrightarrow>
         set_entry (BuildUpdateSet U s data) (ToLower U (Name f)) = Some (field_value f))) \<and>
   (list_all is_ascii name \<and> IsExported U name \<longrightarrow>
      ToLower U name = map lower_char name \<and> ToLower U name \<noteq> ''_id'') \<and>
   (target s data = Some (VStruct (fs1 @ g # fs2)) \<and> bson_tag g = ''-'' \<and>
    target s2 data2 = Some (VStruct (fs1 @ fs2)) \<longrightarrow>
      set_doc (BuildUpdateSet U s data) = set_doc (BuildUpdateSet U s2 data2))"
proof -
  have a: "set_entry (BuildUpdateSet U s data) (ToLower U (Name f)) \<noteq> None \<and>
      ((\<forall>g \<in> set fs. included U g \<and> external_name U g = ToLower U (Name f) \<longrightarrow> g = f) \<longrightarrow>
         set_entry (BuildUpdateSet U s data) (ToLower U (Name f)) = Some (field_value f))"
    if t: "target s data = Some (VStruct fs)" and f: "f \<in> set fs" "IsExported U (Name f)"
      "has_tag f" "\<not> omitted_empty f" "primary_name (bson_tag f) = []"
      "ToLower U (Name f) \<noteq> ''_id''"
  proof -
    have n: "external_name U f = ToLower U (Name f)"
      using f by (simp add: external_name_def)
    have i: "included U f"
      using f n by (simp add: included_def)
    have e: "set_entry (BuildUpdateSet U s data) m =
        map_option field_value (find (\<lambda>f. included U f \<and> external_name U f = m) (rev fs))" for m
      using t by (simp add: set_entry_BuildUpdateSet struct_fields_def map_of_rev_field_set)
    have p: "set_entry (BuildUpdateSet U s data) (ToLower U (Name f)) \<noteq> None"
      using f(1) i n by (auto simp: e find_None_iff)
    have v: "set_entry (BuildUpdateSet U s data) (ToLower U (Name f)) = Some (field_value f)"
      if uniq: "\<forall>g \<in> set fs. included U g \<and> external_name U g = ToLower U (Name f) \<longrightarrow> g = f"
    proof -
      obtain g where g: "find (\<lambda>g. included U g \<and> external_name U g = ToLower U (Name f)) (rev fs) = Some g"
        using p by (auto simp: e)
      then have "g = f" using find_Some_set[OF g] uniq by auto
      then show ?thesis using g by (simp add: e)
    qed
    show ?thesis using p v by blast
  qed
  have l: "ToLower U name = map lower_char name \<and> ToLower U name \<noteq> ''_id''"
    if "list_all is_ascii name" "IsExported U name"
    using that ToLower_ascii[of name U] ToLower_exported_ascii_not_id[of name U] by simp
  have b: "set_doc (BuildUpdateSet U s data) = set_doc (BuildUpdateSet U s2 data2)"
    if "target s data = Some (VStruct (fs1 @ g # fs2))" "bson_tag g = ''-''"
       "target s2 data2 = Some (VStruct (fs1 @ fs2))"
  proof -
    have "\<not> included U g" using that(2) by (simp add: included_def has_tag_def)
    then show ?thesis
      using that(1,3) by (simp add: set_doc_fields assign_field_def)
  qed
  show ?thesis using a l b by blast
qed

theorem C6_name_resolution_witness:
  "target empty_store (Some (VStruct [SField (''Name'' @ [CHR 0xC3, CHR 0x89]) [(''bson'', '',omitempty'')] (VString ''x''),
                                      SField ''Secret'' [(''bson'', ''-'')] (VString ''y'')])) =
     Some (VStruct [SField (''Name'' @ [CHR 0xC3, CHR 0x89]) [(''bson'', '',omitempty'')] (VString ''x''),
                    SField ''Secret'' [(''bson'', ''-'')] (VString ''y'')]) \<and>
   IsExported sample_unicode (''Name'' @ [CHR 0xC3, CHR 0x89]) \<and>
   has_tag (SField (''Name'' @ [CHR 0xC3, CHR 0x89]) [(''bson'', '',omitempty'')] (VString ''x'')) \<and>
   \<not> omitted_empty (SField (''Name'' @ [CHR 0xC3, CHR 0x89]) [(''bson'', '',omitempty'')] (VString ''x'')) \<and>
   primary_name '',omitempty'' = [] \<and>
   ToLower sample_unicode (''Name'' @ [CHR 0xC3, CHR 0x89]) = ''name'' @ [CHR 0xC3, CHR 0xA9] \<and>
   list_all is_ascii ''BaseDocument'' \<and> IsExported sample_unicode ''BaseDocument'' \<and>
   ToLower sample_unicode ''BaseDocument'' = ''basedocument'' \<and>
   bson_tag (SField ''Secret'' [(''bson'', ''-'')] (VString ''y'')) = ''-'' \<and>
   set_entry (BuildUpdateSet sample_unicode empty_store
       (Some (VStruct [SField (''Name'' @ [CHR 0xC3, CHR 0x89]) [(''bson'', '',omitempty'')] (VString ''x''),
                       SField ''Secret'' [(''bson'', ''-'')] (VString ''y'')])))
       (''name'' @ [CHR 0xC3, CHR 0xA9]) =
     Some (Some (VString ''x'')) \<and>
   set_doc (BuildUpdateSet sample_unicode empty_store
       (Some (VStruct [SField (''Name'' @ [CHR 0xC3, CHR 0x89]) [(''bson'', '',omitempty'')] (VString ''x''),
                       SField ''Secret'' [(''bson'', ''-'')] (VString ''y'')]))) =
   set_doc (BuildUpdateSet sample_unicode empty_store
       (Some (VStruct [SField (''Name'' @ [CHR 0xC3, CHR 0x89]) [(''bson'', '',omitempty'')] (VString ''x'')])))"
  using C6_name_resolution [where U = sample_unicode and s = empty_store and ?s2.0 = empty_store
      and data = "Some (VStruct [SField (''Name'' @ [CHR 0xC3, CHR 0x89]) [(''bson'', '',omitempty'')] (VString ''x''),
                      SField ''Secret'' [(''bson'', ''-'')] (VString ''y'')])"
      and fs = "[SField (''Name'' @ [CHR 0xC3, CHR 0x89]) [(''bson'', '',omitempty'')] (VString ''x''),
        SField ''Secret'' [(''bson'', ''-'')] (VString ''y'')]"
      and f = "SField (''Name'' @ [CHR 0xC3, CHR 0x89]) [(''bson'', '',omitempty'')] (VString ''x'')"
      and name = "''BaseDocument''"
      and ?fs1.0 = "[SField (''Name'' @ [CHR 0xC3, CHR 0x89]) [(''bson'', '',omitempty'')] (VString ''x'')]"
      and g = "SField ''Secret'' [(''bson'', ''-'')] (VString ''y'')"
      and ?fs2.0 = "[]"
      and ?data2.0 = "Some (VStruct [SField (''Name'' @ [CHR 0xC3, CHR 0x89]) [(''bson'', '',omitempty'')] (VString ''x'')])"]
  by (simp add: eval_defs)

subsection \<open>C7: the concrete scenario\<close>

text \<open>
  C7. For the record with an identity field tagged \<open>"_id"\<close> (of any value, non-zero ones
  included), a name field \<open>"alice"\<close> tagged \<open>"username"\<close> and a bio field tagged
  \<open>"profile.bio,omitempty"\<close>: the result is \<open>{"$set": {"username": "alice"}}\<close> when bio is
  empty and \<open>{"$set": {"username": "alice", "profile.bio": "hello"}}\<close> when bio is
  \<open>"hello"\<close>.
\<close>

theorem C7_scenario:
  "update_doc (BuildUpdateSet U s (Some (scenario_record idv ''''))) =
     Some [(''$set'', Some (VMap bson_M (Some (Suc (nextmap s)))))] \<and>
   set_doc (BuildUpdateSet U s (Some (scenario_record idv ''''))) =
     Some [(''username'', Some (VString ''alice''))] \<and>
   update_doc (BuildUpdateSet U s (Some (scenario_record idv ''hello''))) =
     Some [(''$set'', Some (VMap bson_M (Some (Suc (nextmap s)))))] \<and>
   set_doc (BuildUpdateSet U s (Some (scenario_record idv ''hello''))) =
     Some [(''username'', Some (VString ''alice'')), (''profile.bio'', Some (VString ''hello''))]"
  by (simp add: update_doc_BuildUpdateSet set_doc_BuildUpdateSet assign_field_def eval_defs)

subsection \<open>C8: determinism and purity\<close>

text \<open>
  C8. A call of \<open>BuildUpdateSet\<close> writes nothing that existed before it: the memory behind
  pointers is unchanged, every map object allocated before the call keeps its content, and
  the returned map is a fresh object. Called a second time on the same argument, in the
  store the first call left, it returns a map structurally equal to the first one (same
  keys, and under \<open>"$set"\<close> a \<open>bson.M\<close> of the same content), the first result is still
  intact, and memory is still unchanged.
\<close>

theorem C8_pure_deterministic:
  assumes "BuildUpdateSet U s data = Inr (u, s')"
  shows "mem s' = mem s \<and>
         (\<forall>a. a < nextmap s \<longrightarrow> mapobj s' a = mapobj s a) \<and>
         nextmap s \<le> u \<and> u < nextmap s' \<and>
         (\<exists>u2 s''. BuildUpdateSet U s' data = Inr (u2, s'') \<and>
            doc_view s'' u2 = doc_view s' u \<and>
            doc_view s'' u = doc_view s' u \<and>
            mem s'' = mem s)"
proof -
  have u: "u = nextmap s" and s': "s' = result_store U s (struct_fields (target s data))"
    using assms by (simp_all add: BuildUpdateSet_char)
  have r2: "BuildUpdateSet U s' data = Inr (nextmap s', result_store U s' (struct_fields (target s data)))"
    by (simp add: BuildUpdateSet_char s' target_result_store)
  show ?thesis
    unfolding r2 unfolding u s'
    by (cases "struct_fields (target s data)")
       (auto simp: result_store_def doc_view_def)
qed

theorem C8_pure_deterministic_witness:
  "\<exists>u s'. BuildUpdateSet sample_unicode empty_store (Some (scenario_record (VInt 7) ''hello'')) = Inr (u, s') \<and>
     mem s' = mem empty_store \<and>
     (\<exists>u2 s''. BuildUpdateSet sample_unicode s' (Some (scenario_record (VInt 7) ''hello'')) = Inr (u2, s'') \<and>
        u2 \<noteq> u \<and>
        doc_view s'' u2 = doc_view s' u \<and>
        doc_view s' u = [(''$set'', Inr (bson_M, [(''username'', Some (VString ''alice'')),
                                                 (''profile.bio'', Some (VString ''hello''))]))])"
proof -
  obtain u s' where r: "BuildUpdateSet sample_unicode empty_store (Some (scenario_record (VInt 7) ''hello'')) = Inr (u, s')"
    by (simp add: BuildUpdateSet_char)
  have v: "doc_view s' u = [(''$set'', Inr (bson_M, [(''username'', Some (VString ''alice'')),
                                                 (''profile.bio'', Some (VString ''hello''))]))]"
    using r by (auto simp: BuildUpdateSet_char result_store_def assign_field_def doc_view_def eval_defs)
  have n: "u < nextmap s'"
    using C8_pure_deterministic [OF r] by simp
  show ?thesis
    using C8_pure_deterministic [OF r] r v n
    by (auto simp: BuildUpdateSet_char)
qed

subsection \<open>C9: an inline field is not expanded\<close>

text \<open>
  C9, as amended. In a struct passed directly or behind one pointer, an exported field
  tagged \<open>",inline"\<close> whose lower-cased identifier is not \<open>"_id"\<close> is not expanded: its
  lower-cased identifier is a key of the mapping under \<open>"$set"\<close>, zero value or not, bound
  to the field's whole value when no other included field resolves to the same name; and
  every key of that mapping is the external name of an included field of the struct
  itself, never of a field nested in one. In particular, for every \<open>User\<close> value the mapping
  binds \<open>"basedocument"\<close> to the whole embedded \<open>BaseDocument\<close> (ID and timestamps inside
  it), next to the five other fields, and has no key \<open>"created_at"\<close> or \<open>"updated_at"\<close>.
\<close>

theorem C9_inline_not_expanded:
  "(target s data = Some (VStruct fs) \<and> f \<in> set fs \<and> bson_tag f = '',inline'' \<and>
    IsExported U (Name f) \<and> ToLower U (Name f) \<noteq> ''_id'' \<longrightarrow>
      set_entry (BuildUpdateSet U s data) (ToLower U (Name f)) \<noteq> None \<and>
      ((\<forall>g \<in> set fs. included U g \<and> external_name U g = ToLower U (Name f) \<longrightarrow> g = f) \<longrightarrow>
         set_entry (BuildUpdateSet U s data) (ToLower U (Name f)) = Some (field_value f))) \<and>
   (target s data = Some (VStruct fs) \<and> set_entry (BuildUpdateSet U s data) n \<noteq> None \<longrightarrow>
      (\<exists>g \<in> set fs. included U g \<and> external_name U g = n)) \<and>
   (target s data = Some (reflect_User usr) \<longrightarrow>
      update_doc (BuildUpdateSet U s data) =
        Some [(''$set'', Some (VMap bson_M (Some (Suc (nextmap s)))))] \<and>
      set_doc (BuildUpdateSet U s data) =
        Some [(''basedocument'', Some (reflect_BaseDocument (BaseDocument usr))),
              (''username'', Some (VString (Username usr))),
              (''email'', Some (VString (Email usr))),
              (''password'', Some (VString (Password usr))),
              (''status'', Some (VString (Status usr))),
              (''profile'', Some (reflect_User_Profile (Profile usr)))] \<and>
      set_entry (BuildUpdateSet U s data) ''basedocument'' =
        Some (Some (reflect_BaseDocument (BaseDocument usr))) \<and>
      set_entry (BuildUpdateSet U s data) ''created_at'' = None \<and>
      set_entry (BuildUpdateSet U s data) ''updated_at'' = None)"
proof -
  have e: "set_entry (BuildUpdateSet U s data) m =
      map_option field_value (find (\<lambda>f. included U f \<and> external_name U f = m) (rev fs))"
    if "target s data = Some (VStruct fs)" for m
    using that by (simp add: set_entry_BuildUpdateSet struct_fields_def map_of_rev_field_set)
  have a: "set_entry (BuildUpdateSet U s data) (ToLower U (Name f)) \<noteq> None \<and>
      ((\<forall>g \<in> set fs. included U g \<and> external_name U g = ToLower U (Name f) \<longrightarrow> g = f) \<longrightarrow>
         set_entry (BuildUpdateSet U s data) (ToLower U (Name f)) = Some (field_value f))"
    if t: "target s data = Some (VStruct fs)" and f: "f \<in> set fs" "bson_tag f = '',inline''"
      "IsExported U (Name f)" "ToLower U (Name f) \<noteq> ''_id''"
  proof -
    have n: "external_name U f = ToLower U (Name f)"
      using f by (simp add: external_name_def primary_name_def)
    have i: "included U f"
      using f n by (simp add: included_def has_tag_def omitted_empty_def modifiers_def)
    have p: "set_entry (BuildUpdateSet U s data) (ToLower U (Name f)) \<noteq> None"
      using f(1) i n by (auto simp: e[OF t] find_None_iff)
    have v: "set_entry (BuildUpdateSet U s data) (ToLower U (Name f)) = Some (field_value f)"
      if uniq: "\<forall>g \<in> set fs. included U g \<and> external_name U g = ToLower U (Name f) \<longrightarrow> g = f"
    proof -
      obtain g where g: "find (\<lambda>g. included U g \<and> external_name U g = ToLower U (Name f)) (rev fs) = Some g"
        using p by (auto simp: e[OF t])
      then have "g = f" using find_Some_set[OF g] uniq by auto
      then show ?thesis using g by (simp add: e[OF t])
    qed
    show ?thesis using p v by blast
  qed
  have b: "\<exists>g \<in> set fs. included U g \<and> external_name U g = n"
    if t: "target s data = Some (VStruct fs)"
      and "set_entry (BuildUpdateSet U s data) n \<noteq> None"
    using that by (auto simp: e[OF t] find_None_iff)
  have c: "update_doc (BuildUpdateSet U s data) =
        Some [(''$set'', Some (VMap bson_M (Some (Suc (nextmap s)))))] \<and>
      set_doc (BuildUpdateSet U s data) =
        Some [(''basedocument'', Some (reflect_BaseDocument (BaseDocument usr))),
              (''username'', Some (VString (Username usr))),
              (''email'', Some (VString (Email usr))),
              (''password'', Some (VString (Password usr))),
              (''status'', Some (VString (Status usr))),
              (''profile'', Some (reflect_User_Profile (Profile usr)))] \<and>
      set_entry (BuildUpdateSet U s data) ''basedocument'' =
        Some (Some (reflect_BaseDocument (BaseDocument usr))) \<and>
      set_entry (BuildUpdateSet U s data) ''created_at'' = None \<and>
      set_entry (BuildUpdateSet U s data) ''updated_at'' = None"
    if t: "target s data = Some (reflect_User usr)"
  proof -
    have sf: "struct_fields (target s data) = struct_fields (Some (reflect_User usr))"
      using t by simp
    have d: "set_doc (BuildUpdateSet U s data) =
           Some [(''basedocument'', Some (reflect_BaseDocument (BaseDocument usr))),
                 (''username'', Some (VString (Username usr))),
                 (''email'', Some (VString (Email usr))),
                 (''password'', Some (VString (Password usr))),
                 (''status'', Some (VString (Status usr))),
                 (''profile'', Some (reflect_User_Profile (Profile usr)))]"
      unfolding set_doc_BuildUpdateSet sf
      by (simp add: reflect_User_def reflect_BaseDocument_def reflect_User_Profile_def
          assign_field_def eval_defs)
    have u: "update_doc (BuildUpdateSet U s data) =
           Some [(''$set'', Some (VMap bson_M (Some (Suc (nextmap s)))))]"
      unfolding update_doc_BuildUpdateSet sf
      by (simp add: reflect_User_def eval_defs)
    show ?thesis
      using u d by (simp add: set_entry_def)
  qed
  show ?thesis using a b c by blast
qed

theorem C9_inline_not_expanded_witness:
  "target empty_store (Some (reflect_User zero_User)) = Some (reflect_User zero_User) \<and>
   is_zero (reflect_BaseDocument (BaseDocument zero_User)) \<and>
   bson_tag (SField ''BaseDocument'' [(''bson'', '',inline'')]
               (reflect_BaseDocument (BaseDocument zero_User))) = '',inline'' \<and>
   IsExported sample_unicode ''BaseDocument'' \<and>
   ToLower sample_unicode ''BaseDocument'' = ''basedocument'' \<and>
   set_entry (BuildUpdateSet sample_unicode empty_store (Some (reflect_User zero_User))) ''basedocument'' =
     Some (Some (VStruct
       [SField ''ID'' [(''bson'', ''_id,omitempty''), (''json'', ''id,omitempty'')]
          (VArray (replicate 12 (VUint 0))),
        SField ''CreatedAt'' [(''bson'', ''created_at''), (''json'', ''created_at'')]
          (VStruct [SField ''wall'' [] (VUint 0), SField ''ext'' [] (VInt 0),
                    SField ''loc'' [] (VPtr None)]),
        SField ''UpdatedAt'' [(''bson'', ''updated_at''), (''json'', ''updated_at'')]
          (VStruct [SField ''wall'' [] (VUint 0), SField ''ext'' [] (VInt 0),
                    SField ''loc'' [] (VPtr None)])])) \<and>
   set_entry (BuildUpdateSet sample_unicode empty_store (Some (reflect_User zero_User))) ''created_at'' = None"
proof -
  have t: "target empty_store (Some (reflect_User zero_User)) = Some (reflect_User zero_User)"
    by (simp add: target_def reflect_User_def)
  have r: "replicate 12 (x::'a) = [x, x, x, x, x, x, x, x, x, x, x, x]" for x
    by (simp add: numeral_eq_Suc)
  show ?thesis
    using C9_inline_not_expanded [where U = sample_unicode and s = empty_store
        and data = "Some (reflect_User zero_User)" and usr = zero_User] t
    by (simp add: zero_User_def zero_Time_def reflect_BaseDocument_def reflect_Time_def
        reflect_ObjectID_def r eval_defs)
qed

text \<open>
  C9 in its general wording fails in two ways: an unexported embedded field tagged
  \<open>",inline"\<close> is skipped, and the result is the empty map; and an inline field \<open>Base\<close>
  followed by a field tagged \<open>"base"\<close> loses its entry to that field.
\<close>

theorem C9_counterexample:
  "\<not> spec_inline_rule sample_unicode
       (BuildUpdateSet sample_unicode empty_store
          (Some (VStruct [SField ''base'' [(''bson'', '',inline'')] (VStruct [])])))
       [SField ''base'' [(''bson'', '',inline'')] (VStruct [])] \<and>
   update_doc (BuildUpdateSet sample_unicode empty_store
          (Some (VStruct [SField ''base'' [(''bson'', '',inline'')] (VStruct [])]))) = Some [] \<and>
   \<not> spec_inline_rule sample_unicode
       (BuildUpdateSet sample_unicode empty_store
          (Some (VStruct [SField ''Base'' [(''bson'', '',inline'')] (VStruct []),
                          SField ''Other'' [(''bson'', ''base'')] (VInt 1)])))
       [SField ''Base'' [(''bson'', '',inline'')] (VStruct []),
        SField ''Other'' [(''bson'', ''base'')] (VInt 1)] \<and>
   set_doc (BuildUpdateSet sample_unicode empty_store
          (Some (VStruct [SField ''Base'' [(''bson'', '',inline'')] (VStruct []),
                          SField ''Other'' [(''bson'', ''base'')] (VInt 1)]))) =
     Some [(''base'', Some (VInt 1))]"
proof -
  have a: "\<not> spec_inline_rule sample_unicode
       (BuildUpdateSet sample_unicode empty_store
          (Some (VStruct [SField ''base'' [(''bson'', '',inline'')] (VStruct [])])))
       [SField ''base'' [(''bson'', '',inline'')] (VStruct [])]"
    by (simp add: spec_inline_rule_def set_entry_BuildUpdateSet field_set_def eval_defs)
  have b: "update_doc (BuildUpdateSet sample_unicode empty_store
          (Some (VStruct [SField ''base'' [(''bson'', '',inline'')] (VStruct [])]))) = Some []"
    by (simp add: update_doc_BuildUpdateSet eval_defs)
  have c: "\<not> spec_inline_rule sample_unicode
       (BuildUpdateSet sample_unicode empty_store
          (Some (VStruct [SField ''Base'' [(''bson'', '',inline'')] (VStruct []),
                          SField ''Other'' [(''bson'', ''base'')] (VInt 1)])))
       [SField ''Base'' [(''bson'', '',inline'')] (VStruct []),
        SField ''Other'' [(''bson'', ''base'')] (VInt 1)]"
    by (simp add: spec_inline_rule_def set_entry_BuildUpdateSet field_set_def eval_defs)
  have d: "set_doc (BuildUpdateSet sample_unicode empty_store
          (Some (VStruct [SField ''Base'' [(''bson'', '',inline'')] (VStruct []),
                          SField ''Other'' [(''bson'', ''base'')] (VInt 1)]))) =
     Some [(''base'', Some (VInt 1))]"
    by (simp add: set_doc_BuildUpdateSet assign_field_def eval_defs)
  show ?thesis using a b c d by blast
qed

subsection \<open>C10: UpdateOne and UpdateMany stamp the update\<close>

text \<open>
  C10, as amended. When the update is a non-nil map (an allocated map object) whose
  \<open>"$set"\<close> entry is absent, a nil interface, or a non-nil \<open>bson.M\<close>, \<open>UpdateOne\<close> and
  \<open>UpdateMany\<close> raise no panic and call the driver in a store where the caller's update map
  binds \<open>"$set"\<close> to a \<open>bson.M\<close> that binds \<open>"updated_at"\<close> to the current time: a fresh
  \<open>bson.M\<close> holding only that entry is created and put under \<open>"$set"\<close> of the caller's map
  when there was none; otherwise the entry is written into the \<open>bson.M\<close> the caller's map
  already refers to, its other entries kept. In particular every map returned by
  \<open>BuildUpdateSet\<close> meets the condition: the empty one is sent as
  \<open>{"$set": {"updated_at": now}}\<close>.
\<close>

theorem C10_updated_at:
  "(u < nextmap s \<and>
    (map_index s (Some u) ''$set'' = None \<or>
     map_index s (Some u) ''$set'' = Some (VMap bson_M (Some m))) \<longrightarrow>
    (\<exists>s2 m'.
       UpdateOne coll now s f (Some u) =
         Inr (case coll s2 f (Some u) of
                Inl err \<Rightarrow> Inl (''failed to update document: '' @ err)
              | Inr result \<Rightarrow> Inr result, s2) \<and>
       UpdateMany coll now s f (Some u) =
         Inr (case coll s2 f (Some u) of
                Inl err \<Rightarrow> Inl (''failed to update documents: '' @ err)
              | Inr result \<Rightarrow> Inr result, s2) \<and>
       map_of (mapobj s2 u) ''$set'' = Some (Some (VMap bson_M (Some m'))) \<and>
       map_of (mapobj s2 m') ''updated_at'' = Some (Some now) \<and>
       (map_index s (Some u) ''$set'' = None \<longrightarrow>
          m' = nextmap s \<and> mapobj s2 m' = [(''updated_at'', Some now)] \<and>
          map_of (mapobj s2 u) = (map_of (mapobj s u))(''$set'' \<mapsto> Some (VMap bson_M (Some m')))) \<and>
       (map_index s (Some u) ''$set'' = Some (VMap bson_M (Some m)) \<longrightarrow>
          m' = m \<and> map_of (mapobj s2 m) = (map_of (mapobj s m))(''updated_at'' \<mapsto> Some now)) \<and>
       mem s2 = mem s)) \<and>
   (BuildUpdateSet U s0 data = Inr (u0, s1) \<longrightarrow>
    (\<exists>s2 m'.
       UpdateOne coll now s1 f (Some u0) =
         Inr (case coll s2 f (Some u0) of
                Inl err \<Rightarrow> Inl (''failed to update document: '' @ err)
              | Inr result \<Rightarrow> Inr result, s2) \<and>
       UpdateMany coll now s1 f (Some u0) =
         Inr (case coll s2 f (Some u0) of
                Inl err \<Rightarrow> Inl (''failed to update documents: '' @ err)
              | Inr result \<Rightarrow> Inr result, s2) \<and>
       mapobj s2 u0 = [(''$set'', Some (VMap bson_M (Some m')))] \<and>
       map_of (mapobj s2 m') ''updated_at'' = Some (Some now) \<and>
       (mapobj s1 u0 = [] \<longrightarrow> mapobj s2 m' = [(''updated_at'', Some now)])))"
proof (intro conjI impI)
  assume a: "u < nextmap s \<and>
    (map_index s (Some u) ''$set'' = None \<or>
     map_index s (Some u) ''$set'' = Some (VMap bson_M (Some m)))"
  then have lt: "u < nextmap s" by simp
  from a consider (new) "map_index s (Some u) ''$set'' = None"
    | (old) "map_index s (Some u) ''$set'' = Some (VMap bson_M (Some m))" by auto
  then show "\<exists>s2 m'.
       UpdateOne coll now s f (Some u) =
         Inr (case coll s2 f (Some u) of
                Inl err \<Rightarrow> Inl (''failed to update document: '' @ err)
              | Inr result \<Rightarrow> Inr result, s2) \<and>
       UpdateMany coll now s f (Some u) =
         Inr (case coll s2 f (Some u) of
                Inl err \<Rightarrow> Inl (''failed to update documents: '' @ err)
              | Inr result \<Rightarrow> Inr result, s2) \<and>
       map_of (mapobj s2 u) ''$set'' = Some (Some (VMap bson_M (Some m'))) \<and>
       map_of (mapobj s2 m') ''updated_at'' = Some (Some now) \<and>
       (map_index s (Some u) ''$set'' = None \<longrightarrow>
          m' = nextmap s \<and> mapobj s2 m' = [(''updated_at'', Some now)] \<and>
          map_of (mapobj s2 u) = (map_of (mapobj s u))(''$set'' \<mapsto> Some (VMap bson_M (Some m')))) \<and>
       (map_index s (Some u) ''$set'' = Some (VMap bson_M (Some m)) \<longrightarrow>
          m' = m \<and> map_of (mapobj s2 m) = (map_of (mapobj s m))(''updated_at'' \<mapsto> Some now)) \<and>
       mem s2 = mem s"
  proof cases
    case new
    show ?thesis
      apply (rule exI[of _ "stamped_new s now u"], rule exI[of _ "nextmap s"])
      using new UpdateOne_new[OF lt new, of coll now f] UpdateMany_new[OF lt new, of coll now f]
        stamped_new_props[OF lt, of now]
      by simp
  next
    case old
    show ?thesis
      apply (rule exI[of _ "stamped_old s now m"], rule exI[of _ m])
      using old UpdateOne_old[OF old, of coll now f] UpdateMany_old[OF old, of coll now f]
        stamped_old_props[OF old, of now]
      by simp
  qed
next
  assume b: "BuildUpdateSet U s0 data = Inr (u0, s1)"
  from BuildUpdateSet_result_shape[OF b] have lt: "u0 < nextmap s1" by simp
  from BuildUpdateSet_result_shape[OF b]
  consider (empty) "mapobj s1 u0 = []"
    | (full) "mapobj s1 u0 = [(''$set'', Some (VMap bson_M (Some (Suc u0))))]" by auto
  then show "\<exists>s2 m'.
       UpdateOne coll now s1 f (Some u0) =
         Inr (case coll s2 f (Some u0) of
                Inl err \<Rightarrow> Inl (''failed to update document: '' @ err)
              | Inr result \<Rightarrow> Inr result, s2) \<and>
       UpdateMany coll now s1 f (Some u0) =
         Inr (case coll s2 f (Some u0) of
                Inl err \<Rightarrow> Inl (''failed to update documents: '' @ err)
              | Inr result \<Rightarrow> Inr result, s2) \<and>
       mapobj s2 u0 = [(''$set'', Some (VMap bson_M (Some m')))] \<and>
       map_of (mapobj s2 m') ''updated_at'' = Some (Some now) \<and>
       (mapobj s1 u0 = [] \<longrightarrow> mapobj s2 m' = [(''updated_at'', Some now)])"
  proof cases
    case empty
    then have new: "map_index s1 (Some u0) ''$set'' = None"
      by (simp add: map_index_def)
    show ?thesis
      apply (rule exI[of _ "stamped_new s1 now u0"], rule exI[of _ "nextmap s1"])
      using empty lt UpdateOne_new[OF lt new, of coll now f] UpdateMany_new[OF lt new, of coll now f]
      by (simp add: stamped_new_def)
  next
    case full
    then have old: "map_index s1 (Some u0) ''$set'' = Some (VMap bson_M (Some (Suc u0)))"
      by (simp add: map_index_def)
    show ?thesis
      apply (rule exI[of _ "stamped_old s1 now (Suc u0)"], rule exI[of _ "Suc u0"])
      using full UpdateOne_old[OF old, of coll now f] UpdateMany_old[OF old, of coll now f]
      by (simp add: stamped_old_def update_conv')
  qed
qed

theorem C10_updated_at_witness:
  "0 < nextmap (empty_store\<lparr>nextmap := 1\<rparr>) \<and>
   map_index (empty_store\<lparr>nextmap := 1\<rparr>) (Some 0) ''$set'' = None \<and>
   (\<exists>s2. UpdateOne accepting_collection (reflect_Time zero_Time) (empty_store\<lparr>nextmap := 1\<rparr>)
            None (Some 0) = Inr (Inr (), s2) \<and>
         map_of (mapobj s2 0) ''$set'' = Some (Some (VMap bson_M (Some 1))) \<and>
         mapobj s2 1 = [(''updated_at'', Some (reflect_Time zero_Time))]) \<and>
   (\<exists>u0 s1 s2 m'.
      BuildUpdateSet sample_unicode empty_store (Some (VInt 5)) = Inr (u0, s1) \<and>
      mapobj s1 u0 = [] \<and>
      UpdateOne accepting_collection (reflect_Time zero_Time) s1 None (Some u0) = Inr (Inr (), s2) \<and>
      mapobj s2 u0 = [(''$set'', Some (VMap bson_M (Some m')))] \<and>
      mapobj s2 m' = [(''updated_at'', Some (reflect_Time zero_Time))])"
proof -
  have h1: "0 < nextmap (empty_store\<lparr>nextmap := 1\<rparr>)"
    by simp
  have h2: "map_index (empty_store\<lparr>nextmap := 1\<rparr>) (Some 0) ''$set'' = None"
    by (simp add: map_index_def empty_store_def)
  obtain u0 s1 where b: "BuildUpdateSet sample_unicode empty_store (Some (VInt 5)) = Inr (u0, s1)"
    by (simp add: BuildUpdateSet_char)
  have e: "mapobj s1 u0 = []"
    using b update_doc_BuildUpdateSet[of sample_unicode empty_store "Some (VInt 5)"]
    by (simp add: update_doc_def eval_defs)
  have p1: "\<exists>s2. UpdateOne accepting_collection (reflect_Time zero_Time) (empty_store\<lparr>nextmap := 1\<rparr>)
            None (Some 0) = Inr (Inr (), s2) \<and>
         map_of (mapobj s2 0) ''$set'' = Some (Some (VMap bson_M (Some 1))) \<and>
         mapobj s2 1 = [(''updated_at'', Some (reflect_Time zero_Time))]"
    using C10_updated_at [of 0 "empty_store\<lparr>nextmap := 1\<rparr>" 0 accepting_collection
        "reflect_Time zero_Time" None sample_unicode empty_store "Some (VInt 5)" u0 s1] h1 h2
    by (auto simp: accepting_collection_def)
  have p2: "\<exists>s2 m'.
      UpdateOne accepting_collection (reflect_Time zero_Time) s1 None (Some u0) = Inr (Inr (), s2) \<and>
      mapobj s2 u0 = [(''$set'', Some (VMap bson_M (Some m')))] \<and>
      mapobj s2 m' = [(''updated_at'', Some (reflect_Time zero_Time))]"
    using C10_updated_at [of 0 "empty_store\<lparr>nextmap := 1\<rparr>" 0 accepting_collection
        "reflect_Time zero_Time" None sample_unicode empty_store "Some (VInt 5)" u0 s1] b e
    by (auto simp: accepting_collection_def)
  show ?thesis using h1 h2 p1 p2 b e by blast
qed

text \<open>
  C10 as stated, for every update, fails: with a nil update map the assignment of the new
  \<open>"$set"\<close> panics, and with \<open>"$set"\<close> bound to a map that is not of type \<open>bson.M\<close> the type
  assertion panics; the driver is not called in either case.
\<close>

theorem C10_counterexample:
  "UpdateOne accepting_collection (reflect_Time zero_Time) empty_store None None =
     Inl (Panic ''assignment to entry in nil map'') \<and>
   UpdateMany accepting_collection (reflect_Time zero_Time) empty_store None None =
     Inl (Panic ''assignment to entry in nil map'') \<and>
   UpdateOne accepting_collection (reflect_Time zero_Time) plain_map_store None (Some 0) =
     Inl (Panic ''interface conversion: interface {} is not primitive.M'') \<and>
   UpdateMany accepting_collection (reflect_Time zero_Time) plain_map_store None (Some 0) =
     Inl (Panic ''interface conversion: interface {} is not primitive.M'')"
  by (simp add: UpdateOne_def UpdateMany_def map_index_def make_map_def map_assign_def
      assert_bson_M_def plain_map_store_def empty_store_def bson_M_def)

end
